theory Spec2Isabelle
  imports Main
begin

section \<open>Python values as the handlers observe them\<close>

text \<open>
  The socket handlers of \<^verbatim>\<open>app.py\<close> receive a decoded JSON object (a Python dict with
  string keys).  They never look inside a value: they read it with \<^verbatim>\<open>dict.get\<close>, test
  its truth value (\<^verbatim>\<open>x or d\<close>), format it with \<^verbatim>\<open>str\<close> (an f-string field) and
  pass it on to \<^verbatim>\<open>emit\<close>.  \<open>None\<close>, booleans, integers and strings are modelled as
  they are.  Every other value (a float, a list, a nested dict) is \<open>PObj t s\<close>, where
  \<open>t\<close> is its truth value and \<open>s\<close> the text \<^verbatim>\<open>str\<close> gives for it.
  Characters are the 8-bit characters of HOL.
\<close>

datatype pyval = PNone | PBool bool | PInt int | PStr string | PObj bool string

type_synonym pydict = "(string \<times> pyval) list"

text \<open>\<^verbatim>\<open>d.get(k)\<close> and \<^verbatim>\<open>d.get(k, dflt)\<close>.\<close>

definition dict_get :: "pydict \<Rightarrow> string \<Rightarrow> pyval" where
  "dict_get d k = (case map_of d k of None \<Rightarrow> PNone | Some v \<Rightarrow> v)"

definition dict_get_default :: "pydict \<Rightarrow> string \<Rightarrow> pyval \<Rightarrow> pyval" where
  "dict_get_default d k dflt = (case map_of d k of None \<Rightarrow> dflt | Some v \<Rightarrow> v)"

text \<open>Truth value of a Python object, and \<^verbatim>\<open>a or b\<close>.\<close>

fun truthy :: "pyval \<Rightarrow> bool" where
  "truthy PNone = False"
| "truthy (PBool b) = b"
| "truthy (PInt i) = (i \<noteq> 0)"
| "truthy (PStr s) = (s \<noteq> [])"
| "truthy (PObj t s) = t"

definition py_or :: "pyval \<Rightarrow> pyval \<Rightarrow> pyval" where
  "py_or a b = (if truthy a then a else b)"

text \<open>Decimal digits of a natural number, and \<^verbatim>\<open>str\<close>.\<close>

definition digits :: string where
  "digits = ''0123456789''"

fun dec :: "nat \<Rightarrow> string" where
  "dec n = (if n < 10 then [digits ! n] else dec (n div 10) @ [digits ! (n mod 10)])"

declare dec.simps [simp del]

definition str_int :: "int \<Rightarrow> string" where
  "str_int i = (if i < 0 then ''-'' @ dec (nat (- i)) else dec (nat i))"

fun py_str :: "pyval \<Rightarrow> string" where
  "py_str PNone = ''None''"
| "py_str (PBool b) = (if b then ''True'' else ''False'')"
| "py_str (PInt i) = str_int i"
| "py_str (PStr s) = s"
| "py_str (PObj t s) = s"

text \<open>
  \<^verbatim>\<open>str.strip()\<close> removes leading and trailing whitespace: the code points 9 to 13,
  28 to 32, 0x85 and 0xA0 (below 256).
\<close>

definition py_isspace :: "char \<Rightarrow> bool" where
  "py_isspace c =
     (let n = (of_char c :: nat)
      in (9 \<le> n \<and> n \<le> 13) \<or> (28 \<le> n \<and> n \<le> 32) \<or> n = 133 \<or> n = 160)"

definition py_strip :: "string \<Rightarrow> string" where
  "py_strip s = rev (dropWhile py_isspace (rev (dropWhile py_isspace s)))"

section \<open>The clock\<close>

text \<open>
  \<^verbatim>\<open>datetime.utcnow()\<close> is a naive datetime; \<^verbatim>\<open>isoformat()\<close> prints it as
  \<^verbatim>\<open>YYYY-MM-DDTHH:MM:SS\<close>, followed by \<^verbatim>\<open>.ffffff\<close> when the microsecond is not zero.
\<close>

record datetime =
  year :: nat
  month :: nat
  day :: nat
  hour :: nat
  minute :: nat
  second :: nat
  microsecond :: nat

definition zpad :: "nat \<Rightarrow> nat \<Rightarrow> string" where
  "zpad w n = replicate (w - length (dec n)) (CHR ''0'') @ dec n"

definition isoformat :: "datetime \<Rightarrow> string" where
  "isoformat d =
     zpad 4 (year d) @ ''-'' @ zpad 2 (month d) @ ''-'' @ zpad 2 (day d) @ ''T''
     @ zpad 2 (hour d) @ '':'' @ zpad 2 (minute d) @ '':'' @ zpad 2 (second d)
     @ (if microsecond d = 0 then [] else ''.'' @ zpad 6 (microsecond d))"

section \<open>Server state, errors and effects\<close>

type_synonym sid = string

datatype error = OSError | EmitError | JoinError

datatype target = ToSid sid | Broadcast | ToRoom string

datatype parg = NoArg | ArgSid sid | ArgErr error | ArgData pydict

text \<open>
  What a handler does to the outside world, in the order it does it: a file opened with
  mode \<^verbatim>\<open>"w"\<close> and written, a file opened with mode \<^verbatim>\<open>"a"\<close> and written, a message
  handed to the transport, a line printed on the diagnostic channel.
\<close>

datatype effect =
    Wrote string
  | Appended string
  | Emitted string pydict target
  | Printed string parg

text \<open>
  \<open>log_file\<close> is the content of \<^verbatim>\<open>wizard_log.csv\<close> (\<open>None\<close>: the file does not exist);
  \<open>storage_ok\<close> says whether \<^verbatim>\<open>open\<close> succeeds, \<open>transport_ok\<close> whether an emit
  succeeds; \<open>connected\<close> are the live connections and \<open>rooms\<close> the members of each room.
\<close>

record server =
  log_file :: "string option"
  storage_ok :: bool
  transport_ok :: bool
  connected :: "sid set"
  rooms :: "string \<Rightarrow> sid set"
  trace :: "effect list"

text \<open>
  A statement of a handler runs on the state and either completes or raises; what it did
  before raising stays done.
\<close>

type_synonym action = "server \<Rightarrow> error option \<times> server"

definition andthen :: "action \<Rightarrow> action \<Rightarrow> action" where
  "andthen f g s = (case f s of (None, s') \<Rightarrow> g s' | (Some e, s') \<Rightarrow> (Some e, s'))"

definition try_except :: "action \<Rightarrow> (error \<Rightarrow> action) \<Rightarrow> action" where
  "try_except f h s = (case f s of (None, s') \<Rightarrow> (None, s') | (Some e, s') \<Rightarrow> h e s')"

definition skip :: action where
  "skip s = (None, s)"

subsection \<open>The file system\<close>

definition write_file :: "string \<Rightarrow> action" where
  "write_file text s =
     (if storage_ok s
      then (None, s\<lparr>log_file := Some text, trace := trace s @ [Wrote text]\<rparr>)
      else (Some OSError, s))"

definition append_file :: "string \<Rightarrow> action" where
  "append_file text s =
     (if storage_ok s
      then (None, s\<lparr>log_file := Some (case log_file s of None \<Rightarrow> text | Some c \<Rightarrow> c @ text),
                     trace := trace s @ [Appended text]\<rparr>)
      else (Some OSError, s))"

definition py_print :: "string \<Rightarrow> parg \<Rightarrow> action" where
  "py_print label arg s = (None, s\<lparr>trace := trace s @ [Printed label arg]\<rparr>)"

subsection \<open>The transport\<close>

text \<open>
  Modelled from the spec: the functions \<^verbatim>\<open>emit\<close>, \<^verbatim>\<open>socketio.emit\<close> and \<^verbatim>\<open>join_room\<close>
  belong to the messaging library and are not part of the source.  An emit inside a
  handler goes to the sender, with \<^verbatim>\<open>broadcast=True\<close> to all connected clients
  (the sender included), with \<^verbatim>\<open>room=r\<close> to the members of \<open>r\<close>.  Joining adds the
  connection to the group, is idempotent and fails when the connection no longer exists.
\<close>

definition emit :: "string \<Rightarrow> pydict \<Rightarrow> target \<Rightarrow> action" where
  "emit event payload tgt s =
     (if transport_ok s
      then (None, s\<lparr>trace := trace s @ [Emitted event payload tgt]\<rparr>)
      else (Some EmitError, s))"

fun audience :: "server \<Rightarrow> target \<Rightarrow> sid set" where
  "audience s (ToSid x) = {x}"
| "audience s Broadcast = connected s"
| "audience s (ToRoom r) = rooms s r"

definition join_room :: "sid \<Rightarrow> string \<Rightarrow> action" where
  "join_room me room s =
     (if me \<in> connected s
      then (None, s\<lparr>rooms := (rooms s)(room := insert me (rooms s room))\<rparr>)
      else (Some JoinError, s))"

section \<open>The audit log writer\<close>

definition newline :: char where
  "newline = CHR 0x0A"

definition header_line :: string where
  "header_line =
     ''timestamp,action_type,action_id,description,expected_effect,participant_response,observer_note''"

definition header :: string where
  "header = header_line @ [newline]"

definition log_row :: "string \<Rightarrow> action" where
  "log_row row =
     andthen (\<lambda>s. if log_file s = None then write_file header s else skip s)
             (append_file (row @ [newline]))"

section \<open>The handlers\<close>

text \<open>
  Each handler takes what the source reads from its surroundings as arguments: \<open>now\<close>
  is the value of \<^verbatim>\<open>datetime.utcnow()\<close>, \<open>me\<close> is \<^verbatim>\<open>request.sid\<close>, and the event data is a
  dict, as the docstrings expect.  A row is the f-string of the source, written as a
  concatenation; \<open>quoted\<close> wraps a text in the double quotes the f-string has around it.
\<close>

definition quoted :: "string \<Rightarrow> string" where
  "quoted s = [CHR 0x22] @ s @ [CHR 0x22]"

definition on_connect :: "sid \<Rightarrow> action" where
  "on_connect me =
     andthen (py_print ''Client connected:'' (ArgSid me))
    (andthen (emit ''status'' [(''msg'', PStr ''connected''), (''sid'', PStr me)] (ToSid me))
             (emit ''participant_status'' [(''connected'', PBool True)] (ToRoom ''wizard'')))"

definition on_disconnect :: "sid \<Rightarrow> action" where
  "on_disconnect me =
     andthen (py_print ''Client disconnected:'' (ArgSid me))
             (emit ''participant_status'' [(''connected'', PBool False)] (ToRoom ''wizard''))"

definition on_join_wizard :: "sid \<Rightarrow> action" where
  "on_join_wizard me =
     try_except
       (andthen (join_room me ''wizard'')
       (andthen (emit ''status'' [(''msg'', PStr ''joined_wizard''), (''sid'', PStr me)] (ToSid me))
                (py_print (''Socket '' @ me @ '' joined wizard room'') NoArg)))
       (\<lambda>e. py_print ''join_wizard error'' (ArgErr e))"

definition handle_trigger :: "datetime \<Rightarrow> pydict \<Rightarrow> sid \<Rightarrow> action" where
  "handle_trigger now data me =
     (let timestamp = isoformat now @ ''Z'';
          desc = py_str (dict_get_default data ''payload'' (PStr ''''));
          note = dict_get_default data ''note'' (PStr '''');
          row = timestamp @ '','' @ py_str (dict_get data ''type'') @ '',''
                @ py_str (dict_get data ''id'') @ '','' @ quoted desc @ '',''
                @ quoted (py_str note) @ '',,'' @ quoted ''''
      in andthen (log_row (py_strip row))
        (andthen (emit ''action'' data Broadcast)
                 (emit ''ack'' [(''status'', PStr ''sent''), (''id'', dict_get data ''id'')]
                       (ToSid me))))"

definition on_participant_ack :: "datetime \<Rightarrow> pydict \<Rightarrow> action" where
  "on_participant_ack now data =
     (let timestamp = isoformat now @ ''Z'';
          row = timestamp @ '',ack,'' @ py_str (dict_get data ''id'') @ '',''
                @ quoted ''participant ack'' @ '','' @ quoted '''' @ '',''
                @ py_str (dict_get_default data ''response'' (PStr '''')) @ '',''
                @ quoted (py_str (dict_get_default data ''note'' (PStr '''')))
      in andthen (log_row (py_strip row))
                 (py_print ''Participant ack:'' (ArgData data)))"

definition on_participant_input :: "datetime \<Rightarrow> pydict \<Rightarrow> sid \<Rightarrow> action" where
  "on_participant_input now payload me =
     (let server_ts = isoformat now @ ''Z'';
          run_id = py_or (dict_get payload ''runId'') (PStr '''');
          pid = py_or (dict_get payload ''id'') (PStr '''');
          ptype = py_or (dict_get payload ''type'') (PStr ''participant_input'');
          val = py_or (dict_get payload ''value'') (PStr '''');
          client_ts = py_or (dict_get payload ''clientTs'') (PStr '''');
          desc = ''run:'' @ py_str run_id @ '';clientTs:'' @ py_str client_ts;
          row = server_ts @ '',participant_input,'' @ py_str pid @ '','' @ quoted desc @ '',''
                @ quoted '''' @ '','' @ py_str val @ '',''
                @ quoted (''runId:'' @ py_str run_id @ '';clientTs:'' @ py_str client_ts)
      in andthen (log_row (py_strip row))
        (andthen (try_except
                    (emit ''participant_input''
                       [(''runId'', run_id), (''id'', pid), (''type'', ptype), (''value'', val),
                        (''clientTs'', client_ts), (''serverTs'', PStr server_ts)]
                       (ToRoom ''wizard''))
                    (\<lambda>e. py_print ''Emit participant_input failed:'' (ArgErr e)))
        (andthen (emit ''participant_input_ack''
                    [(''status'', PStr ''received''), (''id'', pid), (''serverTs'', PStr server_ts)]
                    (ToSid me))
                 (py_print ''Participant input:'' (ArgData payload)))))"

definition on_participant_confirm :: "datetime \<Rightarrow> pydict \<Rightarrow> action" where
  "on_participant_confirm now data =
     (let timestamp = isoformat now @ ''Z'';
          pid = py_or (dict_get data ''id'') (PStr ''confirm'');
          response = py_or (dict_get data ''response'') (PStr '''');
          note = dict_get_default data ''note'' (PStr '''');
          row = timestamp @ '',participant_confirm,'' @ py_str pid @ '',''
                @ quoted ''participant confirmed hearing'' @ '','' @ quoted '''' @ '',''
                @ py_str response @ '','' @ quoted (py_str note)
      in andthen (log_row (py_strip row))
        (andthen (try_except
                    (emit ''participant_input''
                       [(''id'', pid), (''type'', PStr ''confirm''), (''value'', response),
                        (''serverTs'', PStr timestamp)]
                       (ToRoom ''wizard''))
                    (\<lambda>e. py_print ''Emit participant_confirm failed:'' (ArgErr e)))
                 (py_print ''Participant confirm:'' (ArgData data))))"

section \<open>Reading a run\<close>

text \<open>What a handler added to the trace, the rows it appended and the messages it emitted.\<close>

definition effects_of :: "action \<Rightarrow> server \<Rightarrow> effect list" where
  "effects_of h s = drop (length (trace s)) (trace (snd (h s)))"

fun is_append :: "effect \<Rightarrow> bool" where
  "is_append (Appended r) = True"
| "is_append e = False"

fun is_emit :: "effect \<Rightarrow> bool" where
  "is_emit (Emitted ev p t) = True"
| "is_emit e = False"

fun appended :: "effect list \<Rightarrow> string list" where
  "appended [] = []"
| "appended (Appended r # es) = r # appended es"
| "appended (e # es) = appended es"

fun emitted :: "effect list \<Rightarrow> (string \<times> pydict \<times> target) list" where
  "emitted [] = []"
| "emitted (Emitted ev p t # es) = (ev, p, t) # emitted es"
| "emitted (e # es) = emitted es"

text \<open>
  The state after \<open>log_row row\<close> has succeeded, and the state after further effects.
\<close>

definition logged :: "string \<Rightarrow> server \<Rightarrow> server" where
  "logged row s =
     s\<lparr>log_file := Some ((case log_file s of None \<Rightarrow> header | Some c \<Rightarrow> c) @ row @ [newline]),
       trace := trace s @ (if log_file s = None then [Wrote header] else [])
                @ [Appended (row @ [newline])]\<rparr>"

definition did :: "effect list \<Rightarrow> server \<Rightarrow> server" where
  "did es s = s\<lparr>trace := trace s @ es\<rparr>"

text \<open>
  The cells of a log line, joined by commas in the order of the header, and the columns
  they stand in.  A cell is what the handler wrote between two commas: free text comes
  wrapped in double quotes, without escaping.
\<close>

fun csv_line :: "string list \<Rightarrow> string" where
  "csv_line [] = []"
| "csv_line [c] = c"
| "csv_line (c # cs) = c @ '','' @ csv_line cs"

definition header_cols :: "string list" where
  "header_cols = [''timestamp'', ''action_type'', ''action_id'', ''description'',
                  ''expected_effect'', ''participant_response'', ''observer_note'']"

text \<open>
  Reading a line back: cut at every comma outside double quotes, then label the cells
  with the header's column names.
\<close>

fun split_cells :: "bool \<Rightarrow> string \<Rightarrow> string \<Rightarrow> string list" where
  "split_cells inq cur [] = [cur]"
| "split_cells inq cur (c # cs) =
     (if c = CHR 0x22 then split_cells (\<not> inq) (cur @ [c]) cs
      else if c = CHR '','' \<and> \<not> inq then cur # split_cells False [] cs
      else split_cells inq (cur @ [c]) cs)"

definition csv_cells :: "string \<Rightarrow> string list" where
  "csv_cells line = split_cells False [] line"

definition column :: "string \<Rightarrow> string \<Rightarrow> string option" where
  "column name line = map_of (zip header_cols (csv_cells line)) name"

text \<open>The lines of a file: the text before each newline, and what follows the last one.\<close>

fun lines_from :: "string \<Rightarrow> string \<Rightarrow> string list" where
  "lines_from cur [] = (if cur = [] then [] else [cur])"
| "lines_from cur (c # cs) =
     (if c = newline then cur # lines_from [] cs else lines_from (cur @ [c]) cs)"

definition lines_of :: "string \<Rightarrow> string list" where
  "lines_of text = lines_from [] text"

text \<open>Several appends in a row.\<close>

fun log_rows :: "string list \<Rightarrow> action" where
  "log_rows [] = skip"
| "log_rows (r # rs) = andthen (log_row r) (log_rows rs)"




text \<open>
  A cell written without quotes is read back as written when it holds no comma and no
  double quote.  The value of a column is its cell without the double quotes around it.
\<close>

definition cell_ok :: "string \<Rightarrow> bool" where
  "cell_ok t = (CHR '','' \<notin> set t \<and> CHR 0x22 \<notin> set t)"

definition unquote :: "string \<Rightarrow> string" where
  "unquote c =
     (if 2 \<le> length c \<and> hd c = CHR 0x22 \<and> last c = CHR 0x22 then butlast (tl c) else c)"

definition field :: "string \<Rightarrow> string \<Rightarrow> string option" where
  "field name line = map_option unquote (column name line)"

text \<open>The values one column has in the log file, line by line (the header line included).\<close>

definition column_of_log :: "string \<Rightarrow> server \<Rightarrow> string option list option" where
  "column_of_log name s = map_option (\<lambda>text. map (field name) (lines_of text)) (log_file s)"

text \<open>
  The seven cells each handler writes for an event, character by character as the
  f-string of the source has them.
\<close>

definition trigger_cells :: "datetime \<Rightarrow> pydict \<Rightarrow> string list" where
  "trigger_cells now data =
     [isoformat now @ ''Z'',
      py_str (dict_get data ''type''),
      py_str (dict_get data ''id''),
      CHR 0x22 # py_str (dict_get_default data ''payload'' (PStr [])) @ [CHR 0x22],
      CHR 0x22 # py_str (dict_get_default data ''note'' (PStr [])) @ [CHR 0x22],
      [],
      [CHR 0x22, CHR 0x22]]"

definition ack_cells :: "datetime \<Rightarrow> pydict \<Rightarrow> string list" where
  "ack_cells now data =
     [isoformat now @ ''Z'',
      ''ack'',
      py_str (dict_get data ''id''),
      CHR 0x22 # ''participant ack'' @ [CHR 0x22],
      [CHR 0x22, CHR 0x22],
      py_str (dict_get_default data ''response'' (PStr [])),
      CHR 0x22 # py_str (dict_get_default data ''note'' (PStr [])) @ [CHR 0x22]]"

definition input_cells :: "datetime \<Rightarrow> pydict \<Rightarrow> string list" where
  "input_cells now payload =
     [isoformat now @ ''Z'',
      ''participant_input'',
      py_str (py_or (dict_get payload ''id'') (PStr [])),
      CHR 0x22 # ''run:'' @ py_str (py_or (dict_get payload ''runId'') (PStr []))
        @ '';clientTs:'' @ py_str (py_or (dict_get payload ''clientTs'') (PStr [])) @ [CHR 0x22],
      [CHR 0x22, CHR 0x22],
      py_str (py_or (dict_get payload ''value'') (PStr [])),
      CHR 0x22 # ''runId:'' @ py_str (py_or (dict_get payload ''runId'') (PStr []))
        @ '';clientTs:'' @ py_str (py_or (dict_get payload ''clientTs'') (PStr [])) @ [CHR 0x22]]"

definition confirm_cells :: "datetime \<Rightarrow> pydict \<Rightarrow> string list" where
  "confirm_cells now data =
     [isoformat now @ ''Z'',
      ''participant_confirm'',
      py_str (py_or (dict_get data ''id'') (PStr ''confirm'')),
      CHR 0x22 # ''participant confirmed hearing'' @ [CHR 0x22],
      [CHR 0x22, CHR 0x22],
      py_str (py_or (dict_get data ''response'') (PStr [])),
      CHR 0x22 # py_str (dict_get_default data ''note'' (PStr [])) @ [CHR 0x22]]"

text \<open>
  The row, first: the handler made exactly one append, of this row and a newline, emitted
  nothing before it, and the file afterwards is the file before (or the header, when
  there was no file) followed by the row and the newline; when the row holds no newline,
  what was appended reads as exactly one line, the row.
\<close>

definition row_first :: "action \<Rightarrow> server \<Rightarrow> string \<Rightarrow> bool" where
  "row_first h s row =
     (let es = effects_of h s
      in appended es = [row @ [newline]]
         \<and> filter is_emit (takeWhile (\<lambda>e. \<not> is_append e) es) = []
         \<and> log_file (snd (h s))
             = Some ((case log_file s of None \<Rightarrow> header | Some c \<Rightarrow> c) @ row @ [newline])
         \<and> (newline \<notin> set row \<longrightarrow> lines_of (row @ [newline]) = [row]))"

subsection \<open>Sample data\<close>

definition t0 :: datetime where
  "t0 = \<lparr>year = 2024, month = 3, day = 9, hour = 14, minute = 5, second = 7,
         microsecond = 120034\<rparr>"

text \<open>
  A server with an operator \<open>op\<close> in the wizard room and a participant \<open>p1\<close>, no log
  file yet; the same server on a storage that cannot be written; the same server with
  a log file holding the header and one row.
\<close>

definition s0 :: server where
  "s0 = \<lparr>log_file = None, storage_ok = True, transport_ok = True,
         connected = {''op'', ''p1''},
         rooms = (\<lambda>r. if r = ''wizard'' then {''op''} else {}), trace = []\<rparr>"

definition s_down :: server where
  "s_down = s0\<lparr>storage_ok := False\<rparr>"

definition s_used :: server where
  "s_used = s0\<lparr>log_file := Some (header @ ''2024-03-09T14:00:00Z,ack,a1,,,,'' @ [newline])\<rparr>"

definition trigger0 :: pydict where
  "trigger0 = [(''type'', PStr ''audio''), (''id'', PStr ''overview_01''),
               (''payload'', PObj True ''{'volume': 5}''), (''note'', PStr ''check volume'')]"

definition confirm0 :: pydict where
  "confirm0 = [(''id'', PStr ''confirm_hearing''), (''response'', PStr ''confirmed'')]"

definition input0 :: pydict where
  "input0 = [(''runId'', PStr ''r7''), (''id'', PStr ''q1''), (''type'', PStr ''choice''),
             (''value'', PStr ''left''), (''clientTs'', PStr ''1710000000'')]"

definition trigger0_row :: string where
  "trigger0_row =
     csv_line [''2024-03-09T14:05:07.120034Z'', ''audio'', ''overview_01'',
               quoted ''{'volume': 5}'', quoted ''check volume'', [], quoted []]"

definition confirm_blank :: pydict where
  "confirm_blank = [(''id'', PStr []), (''response'', PStr ''confirmed'')]"

definition ack_inject :: pydict where
  "ack_inject = [(''id'', PStr ''a1''), (''response'', PStr ([newline] @ header_line @ [newline]))]"

text \<open>The rows the sample events are expected to give at \<open>t0\<close>, spelled out.\<close>

definition trigger0_line :: string where
  "trigger0_line =
     ''2024-03-09T14:05:07.120034Z,audio,overview_01,'' @ [CHR 0x22] @ ''{'volume': 5}''
     @ [CHR 0x22] @ '','' @ [CHR 0x22] @ ''check volume'' @ [CHR 0x22] @ '',,''
     @ [CHR 0x22, CHR 0x22]"

definition ack0_line :: string where
  "ack0_line =
     ''2024-03-09T14:05:07.120034Z,ack,overview_01,'' @ [CHR 0x22] @ ''participant ack''
     @ [CHR 0x22] @ '','' @ [CHR 0x22, CHR 0x22] @ '',heard,'' @ [CHR 0x22, CHR 0x22]"

definition input0_line :: string where
  "input0_line =
     ''2024-03-09T14:05:07.120034Z,participant_input,q1,'' @ [CHR 0x22]
     @ ''run:r7;clientTs:1710000000'' @ [CHR 0x22] @ '','' @ [CHR 0x22, CHR 0x22] @ '',left,''
     @ [CHR 0x22] @ ''runId:r7;clientTs:1710000000'' @ [CHR 0x22]"

definition confirm0_line :: string where
  "confirm0_line =
     ''2024-03-09T14:05:07.120034Z,participant_confirm,confirm_hearing,'' @ [CHR 0x22]
     @ ''participant confirmed hearing'' @ [CHR 0x22] @ '','' @ [CHR 0x22, CHR 0x22]
     @ '',confirmed,'' @ [CHR 0x22, CHR 0x22]"

definition input_two_lines :: pydict where
  "input_two_lines = [(''id'', PStr ''q1''), (''value'', PStr (''left'' @ [newline] @ ''right''))]"

definition trigger_comma :: pydict where
  "trigger_comma = [(''type'', PStr ''audio''), (''id'', PStr ''a,b''), (''payload'', PInt 5)]"

definition trigger_quote :: pydict where
  "trigger_quote = [(''type'', PStr ''audio''), (''id'', PStr (''a'' @ [CHR 0x22] @ ''b'')),
                    (''payload'', PInt 5)]"

definition trigger_newline :: pydict where
  "trigger_newline = [(''type'', PStr ''audio''), (''id'', PStr ''a1''), (''payload'', PInt 5),
                      (''note'', PStr (''one'' @ [newline] @ ''two''))]"

definition confirm_comma :: pydict where
  "confirm_comma = [(''id'', PStr ''x,y''), (''response'', PStr ''confirmed'')]"

definition confirm_quote :: pydict where
  "confirm_quote = [(''id'', PStr (''x'' @ [CHR 0x22] @ ''y'')), (''response'', PStr ''confirmed'')]"

definition confirm_newline :: pydict where
  "confirm_newline = [(''id'', PStr ''confirm_hearing''),
                      (''response'', PStr (''yes'' @ [newline] @ ''no''))]"

definition confirm_response_comma :: pydict where
  "confirm_response_comma = [(''id'', PStr ''confirm_hearing''), (''response'', PStr ''yes,no'')]"


definition ack0 :: pydict where
  "ack0 = [(''id'', PStr ''overview_01''), (''response'', PStr ''heard'')]"

section \<open>Timestamps and stripping\<close>

lemma dec_nonempty: "dec n \<noteq> []"
  by (subst dec.simps) simp

lemma digit_char: "k < 10 \<Longrightarrow> digits ! k \<in> set digits"
  by (rule nth_mem) (simp add: digits_def)

lemma dec_digits: "set (dec n) \<subseteq> set digits"
proof (induction n rule: dec.induct)
  case (1 n)
  show ?case
  proof (cases "n < 10")
    case True
    then show ?thesis using digit_char [of n] by (subst dec.simps) simp
  next
    case False
    have "n mod 10 < 10" by simp
    then have "digits ! (n mod 10) \<in> set digits" by (rule digit_char)
    with False 1 show ?thesis by (subst dec.simps) simp
  qed
qed

lemma digit_not_space: "c \<in> set digits \<Longrightarrow> \<not> py_isspace c"
  by (auto simp: py_isspace_def digits_def)

lemma zpad_hd: "zpad w n \<noteq> [] \<and> hd (zpad w n) \<in> set digits"
proof (cases "w - length (dec n)")
  case 0
  then have "zpad w n = dec n" by (simp add: zpad_def)
  moreover have "hd (dec n) \<in> set (dec n)" using dec_nonempty by simp
  ultimately show ?thesis using dec_nonempty [of n] dec_digits [of n] by auto
next
  case (Suc k)
  then show ?thesis by (simp add: zpad_def digits_def)
qed

lemma isoformat_hd: "isoformat d \<noteq> [] \<and> \<not> py_isspace (hd (isoformat d))"
  using zpad_hd [of 4 "year d"] digit_not_space [of "hd (zpad 4 (year d))"]
  by (simp add: isoformat_def)

lemma py_strip_id:
  assumes "xs \<noteq> []" "\<not> py_isspace (hd xs)" "\<not> py_isspace (last xs)"
  shows "py_strip xs = xs"
proof -
  from assms have a: "dropWhile py_isspace xs = xs" by (cases xs) auto
  from assms have "rev xs \<noteq> []" "\<not> py_isspace (hd (rev xs))" by (auto simp: hd_rev)
  then have "dropWhile py_isspace (rev xs) = rev xs" by (cases "rev xs") auto
  with a show ?thesis by (simp add: py_strip_def)
qed

section \<open>The log writer on a working and on a failing storage\<close>

lemma log_row_ok:
  "storage_ok s \<Longrightarrow> log_row row s =
     (None, s\<lparr>log_file := Some ((case log_file s of None \<Rightarrow> header | Some c \<Rightarrow> c)
                                 @ row @ [newline]),
              trace := trace s @ (if log_file s = None then [Wrote header] else [])
                       @ [Appended (row @ [newline])]\<rparr>)"
  by (auto simp: log_row_def andthen_def write_file_def append_file_def skip_def
           split: option.splits)

lemma log_row_fail: "\<not> storage_ok s \<Longrightarrow> log_row row s = (Some OSError, s)"
  by (auto simp: log_row_def andthen_def write_file_def append_file_def skip_def
           split: option.splits)

section \<open>What each handler does\<close>

text \<open>
  Every row starts with the timestamp and ends with a double quote, so \<^verbatim>\<open>row.strip()\<close>
  is the row.
\<close>

lemma strip_row:
  "xs \<noteq> [] \<Longrightarrow> last xs = CHR 0x22 \<Longrightarrow> py_strip (isoformat d @ xs) = isoformat d @ xs"
proof -
  assume a: "xs \<noteq> []" "last xs = CHR 0x22"
  have "\<not> py_isspace (CHR 0x22)" by (simp add: py_isspace_def)
  with a show ?thesis
    using isoformat_hd [of d] by (intro py_strip_id) auto
qed

lemma log_row_logged: "storage_ok s \<Longrightarrow> log_row row s = (None, logged row s)"
  by (simp add: log_row_ok logged_def)

lemma logged_fields [simp]:
  "storage_ok (logged row s) = storage_ok s"
  "transport_ok (logged row s) = transport_ok s"
  "connected (logged row s) = connected s"
  "rooms (logged row s) = rooms s"
  "log_file (logged row s) = Some ((case log_file s of None \<Rightarrow> header | Some c \<Rightarrow> c) @ row @ [newline])"
  "trace (logged row s) = trace s @ (if log_file s = None then [Wrote header] else []) @ [Appended (row @ [newline])]"
  by (simp_all add: logged_def)

lemma did_fields [simp]:
  "storage_ok (did es s) = storage_ok s"
  "transport_ok (did es s) = transport_ok s"
  "connected (did es s) = connected s"
  "rooms (did es s) = rooms s"
  "log_file (did es s) = log_file s"
  "trace (did es s) = trace s @ es"
  by (simp_all add: did_def)

lemma did_did: "did es (did ds s) = did (ds @ es) s"
  by (simp add: did_def)

lemma emit_ok: "transport_ok s \<Longrightarrow> emit ev p t s = (None, did [Emitted ev p t] s)"
  by (simp add: emit_def did_def)

lemma emit_fail: "\<not> transport_ok s \<Longrightarrow> emit ev p t s = (Some EmitError, s)"
  by (simp add: emit_def)

lemma print_did: "py_print l a s = (None, did [Printed l a] s)"
  by (simp add: py_print_def did_def)

lemma trigger_run:
  "storage_ok s \<Longrightarrow> transport_ok s \<Longrightarrow>
   handle_trigger now data me s =
     (None, did [Emitted ''action'' data Broadcast,
                 Emitted ''ack'' [(''status'', PStr ''sent''), (''id'', dict_get data ''id'')] (ToSid me)]
              (logged (csv_line [isoformat now @ ''Z'', py_str (dict_get data ''type''),
                  py_str (dict_get data ''id''),
                  quoted (py_str (dict_get_default data ''payload'' (PStr ''''))),
                  quoted (py_str (dict_get_default data ''note'' (PStr ''''))), [], quoted []]) s))"
  by (simp add: handle_trigger_def Let_def andthen_def log_row_logged emit_ok did_did strip_row quoted_def)

lemma trigger_run_mute:
  "storage_ok s \<Longrightarrow> \<not> transport_ok s \<Longrightarrow>
   handle_trigger now data me s =
     (Some EmitError,
              (logged (csv_line [isoformat now @ ''Z'', py_str (dict_get data ''type''),
                  py_str (dict_get data ''id''),
                  quoted (py_str (dict_get_default data ''payload'' (PStr ''''))),
                  quoted (py_str (dict_get_default data ''note'' (PStr ''''))), [], quoted []]) s))"
  by (simp add: handle_trigger_def Let_def andthen_def log_row_logged emit_fail strip_row quoted_def)

lemma trigger_run_down: "\<not> storage_ok s \<Longrightarrow> handle_trigger now data me s = (Some OSError, s)"
  by (simp add: handle_trigger_def Let_def andthen_def log_row_fail)

lemma ack_run:
  "storage_ok s \<Longrightarrow>
   on_participant_ack now data s =
     (None, did [Printed ''Participant ack:'' (ArgData data)]
              (logged (csv_line [isoformat now @ ''Z'', ''ack'', py_str (dict_get data ''id''),
                  quoted ''participant ack'', quoted [],
                  py_str (dict_get_default data ''response'' (PStr '''')),
                  quoted (py_str (dict_get_default data ''note'' (PStr '''')))]) s))"
  by (simp add: on_participant_ack_def Let_def andthen_def log_row_logged print_did strip_row quoted_def)

lemma ack_run_down: "\<not> storage_ok s \<Longrightarrow> on_participant_ack now data s = (Some OSError, s)"
  by (simp add: on_participant_ack_def Let_def andthen_def log_row_fail)

lemma input_run:
  "storage_ok s \<Longrightarrow> transport_ok s \<Longrightarrow>
   on_participant_input now payload me s =
     (None, did [Emitted ''participant_input''
                   [(''runId'', py_or (dict_get payload ''runId'') (PStr '''')),
                    (''id'', py_or (dict_get payload ''id'') (PStr '''')),
                    (''type'', py_or (dict_get payload ''type'') (PStr ''participant_input'')),
                    (''value'', py_or (dict_get payload ''value'') (PStr '''')),
                    (''clientTs'', py_or (dict_get payload ''clientTs'') (PStr '''')),
                    (''serverTs'', PStr (isoformat now @ ''Z''))] (ToRoom ''wizard''),
                 Emitted ''participant_input_ack''
                   [(''status'', PStr ''received''),
                    (''id'', py_or (dict_get payload ''id'') (PStr '''')),
                    (''serverTs'', PStr (isoformat now @ ''Z''))] (ToSid me),
                 Printed ''Participant input:'' (ArgData payload)]
              (logged (csv_line [isoformat now @ ''Z'', ''participant_input'',
                  py_str (py_or (dict_get payload ''id'') (PStr '''')),
                  quoted (''run:'' @ py_str (py_or (dict_get payload ''runId'') (PStr ''''))
                          @ '';clientTs:'' @ py_str (py_or (dict_get payload ''clientTs'') (PStr ''''))),
                  quoted [],
                  py_str (py_or (dict_get payload ''value'') (PStr '''')),
                  quoted (''runId:'' @ py_str (py_or (dict_get payload ''runId'') (PStr ''''))
                          @ '';clientTs:'' @ py_str (py_or (dict_get payload ''clientTs'') (PStr '''')))]) s))"
  by (simp add: on_participant_input_def Let_def andthen_def try_except_def log_row_logged
        emit_ok print_did did_did strip_row quoted_def)

lemma input_run_mute:
  "storage_ok s \<Longrightarrow> \<not> transport_ok s \<Longrightarrow>
   on_participant_input now payload me s =
     (Some EmitError, did [Printed ''Emit participant_input failed:'' (ArgErr EmitError)]
              (logged (csv_line [isoformat now @ ''Z'', ''participant_input'',
                  py_str (py_or (dict_get payload ''id'') (PStr '''')),
                  quoted (''run:'' @ py_str (py_or (dict_get payload ''runId'') (PStr ''''))
                          @ '';clientTs:'' @ py_str (py_or (dict_get payload ''clientTs'') (PStr ''''))),
                  quoted [],
                  py_str (py_or (dict_get payload ''value'') (PStr '''')),
                  quoted (''runId:'' @ py_str (py_or (dict_get payload ''runId'') (PStr ''''))
                          @ '';clientTs:'' @ py_str (py_or (dict_get payload ''clientTs'') (PStr '''')))]) s))"
  by (simp add: on_participant_input_def Let_def andthen_def try_except_def log_row_logged
        emit_fail print_did did_did strip_row quoted_def)

lemma input_run_down: "\<not> storage_ok s \<Longrightarrow> on_participant_input now payload me s = (Some OSError, s)"
  by (simp add: on_participant_input_def Let_def andthen_def log_row_fail)

lemma confirm_run:
  "storage_ok s \<Longrightarrow>
   on_participant_confirm now data s =
     (None, did [if transport_ok s
                 then Emitted ''participant_input''
                   [(''id'', py_or (dict_get data ''id'') (PStr ''confirm'')),
                    (''type'', PStr ''confirm''),
                    (''value'', py_or (dict_get data ''response'') (PStr '''')),
                    (''serverTs'', PStr (isoformat now @ ''Z''))] (ToRoom ''wizard'')
                 else Printed ''Emit participant_confirm failed:'' (ArgErr EmitError),
                 Printed ''Participant confirm:'' (ArgData data)]
              (logged (csv_line [isoformat now @ ''Z'', ''participant_confirm'',
                  py_str (py_or (dict_get data ''id'') (PStr ''confirm'')),
                  quoted ''participant confirmed hearing'', quoted [],
                  py_str (py_or (dict_get data ''response'') (PStr '''')),
                  quoted (py_str (dict_get_default data ''note'' (PStr '''')))]) s))"
  by (cases "transport_ok s")
     (simp_all add: on_participant_confirm_def Let_def andthen_def try_except_def log_row_logged
        emit_ok emit_fail print_did did_did strip_row quoted_def)

lemma confirm_run_down: "\<not> storage_ok s \<Longrightarrow> on_participant_confirm now data s = (Some OSError, s)"
  by (simp add: on_participant_confirm_def Let_def andthen_def log_row_fail)

section \<open>Sample evaluations\<close>

lemma isoformat_t0: "isoformat t0 = ''2024-03-09T14:05:07.120034''"
  by (simp add: isoformat_def t0_def zpad_def dec.simps digits_def)

section \<open>When the append fails\<close>

text \<open>
  C2.  The claim says that an event is still forwarded and answered when the append fails.
  The handlers call \<open>log_row\<close> outside any \<^verbatim>\<open>try\<close>: on a storage that cannot be
  written, \<^verbatim>\<open>trigger_action\<close> raises the storage error and emits nothing.
\<close>

theorem log_failure_aborts_counterexample:
  "\<not> storage_ok s_down
   \<and> fst (handle_trigger t0 trigger0 ''op'' s_down) = Some OSError
   \<and> emitted (effects_of (handle_trigger t0 trigger0 ''op'') s_down) = []"
  by (simp add: s_down_def s0_def handle_trigger_def Let_def andthen_def log_row_def
        write_file_def effects_of_def)

text \<open>
  C2, as amended.  When the append fails, each handler raises the storage error at the
  append and leaves the state as it was: no row is written, nothing is forwarded, no
  reply is sent, and nothing at all is emitted to any client.
\<close>

theorem log_failure_aborts:
  assumes "\<not> storage_ok s"
  shows "handle_trigger now data me s = (Some OSError, s)
       \<and> on_participant_ack now data s = (Some OSError, s)
       \<and> on_participant_input now data me s = (Some OSError, s)
       \<and> on_participant_confirm now data s = (Some OSError, s)"
  using assms
  by (simp add: trigger_run_down ack_run_down input_run_down confirm_run_down)

theorem log_failure_aborts_witness:
  "\<not> storage_ok s_down
   \<and> handle_trigger t0 trigger0 ''op'' s_down = (Some OSError, s_down)
   \<and> on_participant_ack t0 ack0 s_down = (Some OSError, s_down)
   \<and> on_participant_input t0 input0 ''p1'' s_down = (Some OSError, s_down)
   \<and> on_participant_confirm t0 confirm0 s_down = (Some OSError, s_down)"
proof -
  have down: "\<not> storage_ok s_down" by (simp add: s_down_def s0_def)
  show ?thesis
    using down log_failure_aborts [OF down] by simp
qed

section \<open>What is logged, forwarded and replied\<close>

lemma py_or_str_empty: "py_or (PStr i) (PStr []) = PStr i"
  by (simp add: py_or_def)

lemma dict_get_some: "map_of d k = Some v \<Longrightarrow> dict_get d k = v"
  by (simp add: dict_get_def)

text \<open>
  C3.  The claim puts the note of a TriggerAction in the observer_note column and leaves
  expected_effect empty.  The handler writes it the other way round: for the event
  \<^verbatim>\<open>{type: audio, id: overview_01, payload: {volume: 5}, note: check volume}\<close> the one
  appended row carries the quoted note in its fifth cell, the expected_effect column,
  nothing in participant_response, and an empty quoted cell in observer_note.
\<close>

theorem trigger_note_column:
  "appended (effects_of (handle_trigger t0 trigger0 ''op'') s0) = [trigger0_row @ [newline]]
   \<and> column ''expected_effect'' trigger0_row = Some (quoted ''check volume'')
   \<and> column ''participant_response'' trigger0_row = Some []
   \<and> column ''observer_note'' trigger0_row = Some (quoted [])"
proof -
  have ok: "storage_ok s0" "transport_ok s0" by (simp_all add: s0_def)
  have "appended (effects_of (handle_trigger t0 trigger0 ''op'') s0) = [trigger0_row @ [newline]]"
    by (simp add: effects_of_def trigger_run [OF ok] isoformat_t0 trigger0_def trigger0_row_def
          dict_get_def dict_get_default_def)
  moreover have "csv_cells trigger0_row =
     [''2024-03-09T14:05:07.120034Z'', ''audio'', ''overview_01'',
      quoted ''{'volume': 5}'', quoted ''check volume'', [], quoted []]"
    by (simp add: csv_cells_def trigger0_row_def quoted_def)
  ultimately show ?thesis
    by (simp add: column_def header_cols_def)
qed

text \<open>
  C5.  For every ParticipantInput event whose id is the string \<open>i\<close>, on a working
  storage and transport, the handler emits exactly two messages: the forwarded
  \<^verbatim>\<open>participant_input\<close> to the wizard room and the reply \<^verbatim>\<open>participant_input_ack\<close> to
  the sender.  The reply carries the id \<open>i\<close> as submitted, and both carry the same
  \<^verbatim>\<open>serverTs\<close>, the one timestamp taken at receipt.
\<close>

theorem input_reply_same_id_and_timestamp:
  assumes "storage_ok s" and "transport_ok s" and "map_of payload ''id'' = Some (PStr i)"
  shows "emitted (effects_of (on_participant_input now payload me) s) =
           [(''participant_input'',
             [(''runId'', py_or (dict_get payload ''runId'') (PStr [])),
              (''id'', PStr i),
              (''type'', py_or (dict_get payload ''type'') (PStr ''participant_input'')),
              (''value'', py_or (dict_get payload ''value'') (PStr [])),
              (''clientTs'', py_or (dict_get payload ''clientTs'') (PStr [])),
              (''serverTs'', PStr (isoformat now @ ''Z''))],
             ToRoom ''wizard''),
            (''participant_input_ack'',
             [(''status'', PStr ''received''), (''id'', PStr i),
              (''serverTs'', PStr (isoformat now @ ''Z''))],
             ToSid me)]"
  using assms
  by (simp add: effects_of_def input_run dict_get_some py_or_str_empty)

theorem input_reply_same_id_and_timestamp_witness:
  "storage_ok s0 \<and> transport_ok s0 \<and> map_of input0 ''id'' = Some (PStr ''q1'')
   \<and> emitted (effects_of (on_participant_input t0 input0 ''p1'') s0) =
           [(''participant_input'',
             [(''runId'', PStr ''r7''), (''id'', PStr ''q1''), (''type'', PStr ''choice''),
              (''value'', PStr ''left''), (''clientTs'', PStr ''1710000000''),
              (''serverTs'', PStr ''2024-03-09T14:05:07.120034Z'')],
             ToRoom ''wizard''),
            (''participant_input_ack'',
             [(''status'', PStr ''received''), (''id'', PStr ''q1''),
              (''serverTs'', PStr ''2024-03-09T14:05:07.120034Z'')],
             ToSid ''p1'')]"
proof -
  have ok: "storage_ok s0" "transport_ok s0" by (simp_all add: s0_def)
  have idq: "map_of input0 ''id'' = Some (PStr ''q1'')" by (simp add: input0_def)
  show ?thesis
    using ok idq input_reply_same_id_and_timestamp [OF ok idq, of t0 "''p1''"]
    by (simp add: isoformat_t0 input0_def dict_get_def py_or_def)
qed

section \<open>Absent fields\<close>











section \<open>Lines of the log file\<close>

lemma lines_from_row:
  "newline \<notin> set r \<Longrightarrow> lines_from cur (r @ newline # rest) = (cur @ r) # lines_from [] rest"
  by (induction r arbitrary: cur) auto

lemma lines_from_rows:
  "\<forall>r\<in>set rows. newline \<notin> set r \<Longrightarrow>
   lines_from [] (concat (map (\<lambda>r. r @ [newline]) rows)) = rows"
proof (induction rows)
  case Nil
  then show ?case by simp
next
  case (Cons r rows)
  then have "newline \<notin> set r" by simp
  from lines_from_row [OF this, of "[]" "concat (map (\<lambda>r. r @ [newline]) rows)"] Cons
  show ?case by simp
qed

lemma header_line_no_newline: "newline \<notin> set header_line"
  by (simp add: header_line_def newline_def)

lemma lines_of_log:
  assumes "\<forall>r\<in>set rows. newline \<notin> set r"
  shows "lines_of (header @ concat (map (\<lambda>r. r @ [newline]) rows)) = header_line # rows"
proof -
  have "lines_from [] (header_line @ newline # concat (map (\<lambda>r. r @ [newline]) rows))
        = ([] @ header_line) # lines_from [] (concat (map (\<lambda>r. r @ [newline]) rows))"
    using header_line_no_newline by (rule lines_from_row)
  with assms show ?thesis by (simp add: lines_of_def header_def lines_from_rows)
qed

lemma log_rows_existing:
  "storage_ok s \<Longrightarrow> log_file s = Some c \<Longrightarrow>
   log_rows rows s =
     (None, s\<lparr>log_file := Some (c @ concat (map (\<lambda>r. r @ [newline]) rows)),
              trace := trace s @ map (\<lambda>r. Appended (r @ [newline])) rows\<rparr>)"
proof (induction rows arbitrary: s c)
  case Nil
  then show ?case by (simp add: skip_def)
next
  case (Cons r rows)
  let ?s1 = "logged r s"
  have 1: "log_row r s = (None, ?s1)" using Cons.prems by (simp add: log_row_logged)
  have 2: "storage_ok ?s1" "log_file ?s1 = Some (c @ r @ [newline])"
    using Cons.prems by simp_all
  have "log_rows (r # rows) s = log_rows rows ?s1" by (simp add: andthen_def 1)
  also note Cons.IH [OF 2]
  finally show ?case using Cons.prems by (simp add: logged_def)
qed

lemma log_rows_fresh:
  assumes "storage_ok s" and "log_file s = None"
  shows "log_rows (r # rows) s =
     (None, s\<lparr>log_file := Some (header @ concat (map (\<lambda>r. r @ [newline]) (r # rows))),
              trace := trace s @ Wrote header # map (\<lambda>r. Appended (r @ [newline])) (r # rows)\<rparr>)"
proof -
  let ?s1 = "logged r s"
  have 1: "log_row r s = (None, ?s1)" using assms by (simp add: log_row_logged)
  have 2: "storage_ok ?s1" "log_file ?s1 = Some (header @ r @ [newline])"
    using assms by simp_all
  have "log_rows (r # rows) s = log_rows rows ?s1" by (simp add: andthen_def 1)
  also note log_rows_existing [OF 2]
  finally show ?thesis using assms by (simp add: logged_def)
qed

text \<open>
  C8.  The claim says that each append adds exactly one line and that no later line is a
  second copy of the header.  The writer adds the row as it comes, followed by a newline.
  A ParticipantAck whose response is a newline, the header text and a newline makes one
  append add three lines to a fresh log, and the third line of the file is the header again.
\<close>

theorem header_copy_counterexample:
  "log_file s0 = None
   \<and> appended (effects_of (on_participant_ack t0 ack_inject) s0) =
        [''2024-03-09T14:05:07.120034Z,ack,a1,'' @ quoted ''participant ack'' @ '','' @ quoted []
         @ '','' @ [newline] @ header_line @ [newline] @ '','' @ quoted [] @ [newline]]
   \<and> map_option lines_of (log_file (snd (on_participant_ack t0 ack_inject s0))) =
        Some [header_line,
              ''2024-03-09T14:05:07.120034Z,ack,a1,'' @ quoted ''participant ack'' @ '',''
                @ quoted [] @ '','',
              header_line,
              '','' @ quoted []]"
proof -
  have ok: "storage_ok s0" by (simp add: s0_def)
  have none: "log_file s0 = None" by (simp add: s0_def)
  have nl: "newline \<notin> set (''2024-03-09T14:05:07.120034Z,ack,a1,'' @ quoted ''participant ack''
              @ '','' @ quoted [] @ '','')"
    by (simp add: newline_def quoted_def)
  have nl2: "newline \<notin> set ('','' @ quoted [])" by (simp add: newline_def quoted_def)
  have l3: "lines_from [] (('','' @ quoted []) @ newline # []) = [[] @ '','' @ quoted []]"
    using lines_from_row [OF nl2, of "[]" "[]"] by simp
  have l2: "lines_from [] (header_line @ newline # ('','' @ quoted []) @ newline # [])
            = [header_line, '','' @ quoted []]"
    using lines_from_row [OF header_line_no_newline, of "[]" "('','' @ quoted []) @ newline # []"] l3
    by simp
  have l1: "lines_from []
              ((''2024-03-09T14:05:07.120034Z,ack,a1,'' @ quoted ''participant ack''
                 @ '','' @ quoted [] @ '','')
               @ newline # header_line @ newline # ('','' @ quoted []) @ newline # [])
            = [''2024-03-09T14:05:07.120034Z,ack,a1,'' @ quoted ''participant ack''
                 @ '','' @ quoted [] @ '','', header_line, '','' @ quoted []]"
    using lines_from_row [OF nl, of "[]" "header_line @ newline # ('','' @ quoted []) @ newline # []"] l2
    by simp
  have l0: "lines_from [] (header_line @ newline #
              ((''2024-03-09T14:05:07.120034Z,ack,a1,'' @ quoted ''participant ack''
                 @ '','' @ quoted [] @ '','')
               @ newline # header_line @ newline # ('','' @ quoted []) @ newline # []))
            = [header_line, ''2024-03-09T14:05:07.120034Z,ack,a1,'' @ quoted ''participant ack''
                 @ '','' @ quoted [] @ '','', header_line, '','' @ quoted []]"
    using lines_from_row [OF header_line_no_newline, of "[]"
       "(''2024-03-09T14:05:07.120034Z,ack,a1,'' @ quoted ''participant ack''
                 @ '','' @ quoted [] @ '','')
               @ newline # header_line @ newline # ('','' @ quoted []) @ newline # []"] l1
    by simp
  show ?thesis
    using ok none l0
    by (simp add: effects_of_def ack_run isoformat_t0 ack_inject_def dict_get_def
          dict_get_default_def lines_of_def header_def)
qed

text \<open>
  C8, as amended.  Starting without a log file, on a working storage, any non-empty
  sequence of appends of rows that contain no newline and are not the header text itself
  writes the header once, at creation, and then one line per row: the lines of the file
  are the header followed by the rows in order, so the first line is the header and no
  later line is a copy of it.
\<close>

theorem header_written_once:
  assumes "storage_ok s" and "log_file s = None" and "rows \<noteq> []"
    and "\<forall>r\<in>set rows. newline \<notin> set r \<and> r \<noteq> header_line"
  shows "fst (log_rows rows s) = None
       \<and> effects_of (log_rows rows) s
           = Wrote (header_line @ [newline]) # map (\<lambda>r. Appended (r @ [newline])) rows
       \<and> map_option lines_of (log_file (snd (log_rows rows s))) = Some (header_line # rows)
       \<and> header_line \<notin> set rows"
proof -
  from assms(3) obtain r rs where rows: "rows = r # rs" by (cases rows) auto
  have nl: "\<forall>r\<in>set rows. newline \<notin> set r" using assms(4) by simp
  have run: "log_rows rows s =
     (None, s\<lparr>log_file := Some (header @ concat (map (\<lambda>r. r @ [newline]) rows)),
              trace := trace s @ Wrote header # map (\<lambda>r. Appended (r @ [newline])) rows\<rparr>)"
    unfolding rows using assms(1,2) by (rule log_rows_fresh)
  have "header_line \<notin> set rows" using assms(4) by auto
  then show ?thesis
    using lines_of_log [OF nl]
    by (simp add: run effects_of_def header_def)
qed

theorem header_written_once_witness:
  "storage_ok s0 \<and> log_file s0 = None \<and> [''r1,a'', ''r2,b''] \<noteq> []
   \<and> newline \<notin> set ''r1,a'' \<and> ''r1,a'' \<noteq> header_line
   \<and> newline \<notin> set ''r2,b'' \<and> ''r2,b'' \<noteq> header_line
   \<and> fst (log_rows [''r1,a'', ''r2,b''] s0) = None
   \<and> effects_of (log_rows [''r1,a'', ''r2,b'']) s0
       = [Wrote (header_line @ [newline]), Appended (''r1,a'' @ [newline]),
          Appended (''r2,b'' @ [newline])]
   \<and> map_option lines_of (log_file (snd (log_rows [''r1,a'', ''r2,b''] s0)))
       = Some [header_line, ''r1,a'', ''r2,b'']"
proof -
  have ok: "storage_ok s0" by (simp add: s0_def)
  have none: "log_file s0 = None" by (simp add: s0_def)
  have ne: "[''r1,a'', ''r2,b''] \<noteq> []" by simp
  have rows: "\<forall>r\<in>set [''r1,a'', ''r2,b'']. newline \<notin> set r \<and> r \<noteq> header_line"
    by (simp add: newline_def header_line_def)
  show ?thesis
    using ok none rows header_written_once [OF ok none ne rows]
    by simp
qed

section \<open>Joining the wizard room\<close>

lemma join_run:
  "me \<in> connected s \<Longrightarrow>
   on_join_wizard me s =
     (None, did (if transport_ok s
                 then [Emitted ''status'' [(''msg'', PStr ''joined_wizard''), (''sid'', PStr me)]
                         (ToSid me),
                       Printed (''Socket '' @ me @ '' joined wizard room'') NoArg]
                 else [Printed ''join_wizard error'' (ArgErr EmitError)])
              (s\<lparr>rooms := (rooms s)(''wizard'' := insert me (rooms s ''wizard''))\<rparr>))"
  by (simp add: on_join_wizard_def try_except_def andthen_def join_room_def emit_def
        py_print_def did_def)

lemma join_run_gone:
  "me \<notin> connected s \<Longrightarrow>
   on_join_wizard me s = (None, did [Printed ''join_wizard error'' (ArgErr JoinError)] s)"
  by (simp add: on_join_wizard_def try_except_def andthen_def join_room_def py_print_def did_def)

lemma join_fields:
  "fst (on_join_wizard me s) = None"
  "connected (snd (on_join_wizard me s)) = connected s"
  "rooms (snd (on_join_wizard me s)) =
     (if me \<in> connected s then (rooms s)(''wizard'' := insert me (rooms s ''wizard'')) else rooms s)"
  by (cases "me \<in> connected s"; simp add: join_run join_run_gone)+

text \<open>
  C9.  The handler of \<^verbatim>\<open>join_wizard\<close> never raises.  Running it a second time for the
  same connection leaves every room as the first run left it; on a live connection the
  first run adds the connection to the wizard room (one member more if it was not in
  the room yet, and still that many after the second run).  On a connection that no
  longer exists the join fails, the error is caught and printed, and the rooms stay as
  they were.
\<close>

theorem join_wizard_idempotent:
  "fst (on_join_wizard me s) = None
   \<and> fst (on_join_wizard me (snd (on_join_wizard me s))) = None
   \<and> rooms (snd (on_join_wizard me (snd (on_join_wizard me s)))) = rooms (snd (on_join_wizard me s))
   \<and> (me \<in> connected s \<longrightarrow>
        rooms (snd (on_join_wizard me s)) ''wizard'' = insert me (rooms s ''wizard''))
   \<and> (me \<in> connected s \<and> me \<notin> rooms s ''wizard'' \<and> finite (rooms s ''wizard'') \<longrightarrow>
        card (rooms (snd (on_join_wizard me s)) ''wizard'') = Suc (card (rooms s ''wizard''))
        \<and> card (rooms (snd (on_join_wizard me (snd (on_join_wizard me s)))) ''wizard'')
            = Suc (card (rooms s ''wizard'')))
   \<and> (me \<notin> connected s \<longrightarrow>
        rooms (snd (on_join_wizard me s)) = rooms s
        \<and> effects_of (on_join_wizard me) s = [Printed ''join_wizard error'' (ArgErr JoinError)])"
  by (auto simp: join_fields effects_of_def join_run_gone)

theorem join_wizard_idempotent_witness:
  "''p1'' \<in> connected s0 \<and> ''p1'' \<notin> rooms s0 ''wizard'' \<and> finite (rooms s0 ''wizard'')
   \<and> ''gone'' \<notin> connected s0
   \<and> fst (on_join_wizard ''p1'' s0) = None
   \<and> rooms (snd (on_join_wizard ''p1'' s0)) ''wizard'' = {''op'', ''p1''}
   \<and> rooms (snd (on_join_wizard ''p1'' (snd (on_join_wizard ''p1'' s0)))) ''wizard'' = {''op'', ''p1''}
   \<and> card (rooms (snd (on_join_wizard ''p1'' s0)) ''wizard'') = 2
   \<and> fst (on_join_wizard ''gone'' s0) = None
   \<and> rooms (snd (on_join_wizard ''gone'' s0)) ''wizard'' = {''op''}
   \<and> effects_of (on_join_wizard ''gone'') s0 = [Printed ''join_wizard error'' (ArgErr JoinError)]"
proof -
  have c: "''p1'' \<in> connected s0" "''gone'' \<notin> connected s0" by (simp_all add: s0_def)
  have w: "rooms s0 ''wizard'' = {''op''}" by (simp add: s0_def)
  show ?thesis
    using c join_wizard_idempotent [of "''p1''" s0] join_wizard_idempotent [of "''gone''" s0]
    by (auto simp: w)
qed

section \<open>Reading a row back\<close>

lemma zpad_digits: "set (zpad w n) \<subseteq> set digits"
proof -
  have "CHR ''0'' \<in> set digits" by (simp add: digits_def)
  then show ?thesis using dec_digits [of n] by (auto simp: zpad_def)
qed

lemma digits_cell: "c \<in> set digits \<Longrightarrow> c \<noteq> CHR '','' \<and> c \<noteq> CHR 0x22 \<and> c \<noteq> newline"
  by (auto simp: digits_def newline_def)

lemma zpad_cell:
  "CHR '','' \<notin> set (zpad w n)" "CHR 0x22 \<notin> set (zpad w n)" "newline \<notin> set (zpad w n)"
  using zpad_digits [of w n] digits_cell by blast+

lemma stamp_cell: "cell_ok (isoformat d @ ''Z'')"
  by (simp add: cell_ok_def isoformat_def zpad_cell)

lemma stamp_no_newline: "newline \<notin> set (isoformat d @ ''Z'')"
  by (simp add: isoformat_def zpad_cell) (simp add: newline_def)

lemma split_plain:
  "cell_ok p \<Longrightarrow>
   split_cells False cur (p @ CHR '','' # rest) = (cur @ p) # split_cells False [] rest"
  by (induction p arbitrary: cur) (auto simp: cell_ok_def)

lemma split_inside:
  "CHR 0x22 \<notin> set t \<Longrightarrow>
   split_cells True cur (t @ CHR 0x22 # rest) = split_cells False (cur @ t @ [CHR 0x22]) rest"
  by (induction t arbitrary: cur) auto

lemma split_quoted:
  "CHR 0x22 \<notin> set t \<Longrightarrow>
   split_cells False cur (CHR 0x22 # t @ CHR 0x22 # CHR '','' # rest)
     = (cur @ CHR 0x22 # t @ [CHR 0x22]) # split_cells False [] rest"
  by (simp add: split_inside)

lemma cells_three:
  assumes "cell_ok c1" "cell_ok c2" "cell_ok c3"
  shows "csv_cells (csv_line [c1, c2, c3, c4, c5, c6, c7])
         = c1 # c2 # c3 # csv_cells (csv_line [c4, c5, c6, c7])"
  using assms by (simp add: csv_cells_def split_plain)

lemma cells_six:
  assumes "cell_ok c1" "cell_ok c2" "cell_ok c3" "CHR 0x22 \<notin> set t4" "CHR 0x22 \<notin> set t5"
    "cell_ok c6"
  shows "csv_cells (csv_line [c1, c2, c3, CHR 0x22 # t4 @ [CHR 0x22], CHR 0x22 # t5 @ [CHR 0x22], c6, c7])
         = c1 # c2 # c3 # (CHR 0x22 # t4 @ [CHR 0x22]) # (CHR 0x22 # t5 @ [CHR 0x22]) # c6
           # csv_cells c7"
  using assms by (simp add: csv_cells_def split_plain split_inside)

lemma cells_four:
  assumes "cell_ok c1" "cell_ok c2" "cell_ok c3" "CHR 0x22 \<notin> set t4"
  shows "csv_cells (csv_line [c1, c2, c3, CHR 0x22 # t4 @ [CHR 0x22], c5, c6, c7])
         = c1 # c2 # c3 # (CHR 0x22 # t4 @ [CHR 0x22]) # csv_cells (csv_line [c5, c6, c7])"
  using assms by (simp add: csv_cells_def split_plain split_inside)

lemma unquote_plain: "CHR 0x22 \<notin> set c \<Longrightarrow> unquote c = c"
proof (cases c)
  case Nil
  then show ?thesis by (simp add: unquote_def)
next
  case (Cons x xs)
  assume "CHR 0x22 \<notin> set c"
  with Cons show ?thesis by (auto simp: unquote_def)
qed

lemma unquote_quoted: "unquote (CHR 0x22 # t @ [CHR 0x22]) = t"
  by (simp add: unquote_def)

lemma field_second:
  "cells = c1 # c2 # rest \<Longrightarrow> map_of (zip header_cols cells) ''action_type'' = Some c2"
  by (simp add: header_cols_def)

lemma field_third:
  "cells = c1 # c2 # c3 # rest \<Longrightarrow> map_of (zip header_cols cells) ''action_id'' = Some c3"
  by (simp add: header_cols_def)

lemma field_fourth:
  "cells = c1 # c2 # c3 # c4 # rest \<Longrightarrow> map_of (zip header_cols cells) ''description'' = Some c4"
  by (simp add: header_cols_def)

lemma field_sixth:
  "cells = c1 # c2 # c3 # c4 # c5 # c6 # rest \<Longrightarrow>
   map_of (zip header_cols cells) ''participant_response'' = Some c6"
  by (simp add: header_cols_def)

lemma one_line: "newline \<notin> set row \<Longrightarrow> lines_of (row @ [newline]) = [row]"
  using lines_from_row [of row "[]" "[]"] by (simp add: lines_of_def)

section \<open>The rows as cells\<close>

lemma trigger_cells_row:
  "csv_line [isoformat now @ ''Z'', py_str (dict_get data ''type''), py_str (dict_get data ''id''),
             quoted (py_str (dict_get_default data ''payload'' (PStr ''''))),
             quoted (py_str (dict_get_default data ''note'' (PStr ''''))), [], quoted []]
   = csv_line (trigger_cells now data)"
  by (simp add: trigger_cells_def quoted_def)

lemma ack_cells_row:
  "csv_line [isoformat now @ ''Z'', ''ack'', py_str (dict_get data ''id''),
             quoted ''participant ack'', quoted [],
             py_str (dict_get_default data ''response'' (PStr '''')),
             quoted (py_str (dict_get_default data ''note'' (PStr '''')))]
   = csv_line (ack_cells now data)"
  by (simp add: ack_cells_def quoted_def)

lemma input_cells_row:
  "csv_line [isoformat now @ ''Z'', ''participant_input'',
             py_str (py_or (dict_get payload ''id'') (PStr '''')),
             quoted (''run:'' @ py_str (py_or (dict_get payload ''runId'') (PStr ''''))
                     @ '';clientTs:'' @ py_str (py_or (dict_get payload ''clientTs'') (PStr ''''))),
             quoted [],
             py_str (py_or (dict_get payload ''value'') (PStr '''')),
             quoted (''runId:'' @ py_str (py_or (dict_get payload ''runId'') (PStr ''''))
                     @ '';clientTs:'' @ py_str (py_or (dict_get payload ''clientTs'') (PStr '''')))]
   = csv_line (input_cells now payload)"
  by (simp add: input_cells_def quoted_def)

lemma confirm_cells_row:
  "csv_line [isoformat now @ ''Z'', ''participant_confirm'',
             py_str (py_or (dict_get data ''id'') (PStr ''confirm'')),
             quoted ''participant confirmed hearing'', quoted [],
             py_str (py_or (dict_get data ''response'') (PStr '''')),
             quoted (py_str (dict_get_default data ''note'' (PStr '''')))]
   = csv_line (confirm_cells now data)"
  by (simp add: confirm_cells_def quoted_def)

lemmas trigger_run_cells = trigger_run [unfolded trigger_cells_row]
  and trigger_run_mute_cells = trigger_run_mute [unfolded trigger_cells_row]
  and ack_run_cells = ack_run [unfolded ack_cells_row]
  and input_run_cells = input_run [unfolded input_cells_row]
  and input_run_mute_cells = input_run_mute [unfolded input_cells_row]
  and confirm_run_cells = confirm_run [unfolded confirm_cells_row]

lemma trigger0_cells: "csv_line (trigger_cells t0 trigger0) = trigger0_line"
  by (simp add: trigger_cells_def trigger0_def trigger0_line_def isoformat_t0 dict_get_def
        dict_get_default_def)

lemma ack0_cells: "csv_line (ack_cells t0 ack0) = ack0_line"
  by (simp add: ack_cells_def ack0_def ack0_line_def isoformat_t0 dict_get_def
        dict_get_default_def)

lemma input0_cells: "csv_line (input_cells t0 input0) = input0_line"
  by (simp add: input_cells_def input0_def input0_line_def isoformat_t0 dict_get_def py_or_def)

lemma confirm0_cells: "csv_line (confirm_cells t0 confirm0) = confirm0_line"
  by (simp add: confirm_cells_def confirm0_def confirm0_line_def isoformat_t0 dict_get_def
        dict_get_default_def py_or_def)

section \<open>One row per event, written first\<close>

text \<open>
  C1.  The claim promises exactly one audit record for every event.  The row is written as
  it comes: a ParticipantInput whose value holds a newline is appended once and leaves
  two lines in the log, neither of them a whole record.  And on a storage that cannot be
  written a ParticipantAck leaves no record at all.
\<close>

theorem one_event_two_lines_counterexample:
  "appended (effects_of (on_participant_input t0 input_two_lines ''p1'') s0) =
     [''2024-03-09T14:05:07.120034Z,participant_input,q1,'' @ [CHR 0x22] @ ''run:;clientTs:''
      @ [CHR 0x22] @ '','' @ [CHR 0x22, CHR 0x22] @ '',left'' @ [newline]
      @ ''right,'' @ [CHR 0x22] @ ''runId:;clientTs:'' @ [CHR 0x22] @ [newline]]
   \<and> map_option lines_of (log_file (snd (on_participant_input t0 input_two_lines ''p1'' s0))) =
     Some [header_line,
           ''2024-03-09T14:05:07.120034Z,participant_input,q1,'' @ [CHR 0x22] @ ''run:;clientTs:''
             @ [CHR 0x22] @ '','' @ [CHR 0x22, CHR 0x22] @ '',left'',
           ''right,'' @ [CHR 0x22] @ ''runId:;clientTs:'' @ [CHR 0x22]]
   \<and> \<not> storage_ok s_down
   \<and> appended (effects_of (on_participant_ack t0 ack0) s_down) = []
   \<and> log_file (snd (on_participant_ack t0 ack0 s_down)) = None"
proof -
  have ok: "storage_ok s0" "transport_ok s0" by (simp_all add: s0_def)
  have none: "log_file s0 = None" by (simp add: s0_def)
  have down: "\<not> storage_ok s_down" "log_file s_down = None" by (simp_all add: s_down_def s0_def)
  show ?thesis
    using none down
    by (simp add: effects_of_def input_run [OF ok] ack_run_down isoformat_t0 input_two_lines_def
          dict_get_def py_or_def quoted_def lines_of_def header_def header_line_def newline_def)
qed

text \<open>
  C1, as amended.  On a storage that accepts the append, each of the four event handlers
  (\<^verbatim>\<open>trigger_action\<close>, \<^verbatim>\<open>participant_ack\<close>, \<^verbatim>\<open>participant_input\<close>,
  \<^verbatim>\<open>participant_confirm\<close>) makes exactly one append, of the row built from the event
  and a newline, and emits no message before it; the log file afterwards is the file
  before followed by that row.  When the row holds no newline, what was appended is
  exactly one line of the log.  This holds whether or not the transport accepts the
  emits that follow.
\<close>

theorem audit_row_before_forward:
  assumes "storage_ok s"
  shows "row_first (handle_trigger now data me) s (csv_line (trigger_cells now data))
       \<and> row_first (on_participant_ack now data) s (csv_line (ack_cells now data))
       \<and> row_first (on_participant_input now data me) s (csv_line (input_cells now data))
       \<and> row_first (on_participant_confirm now data) s (csv_line (confirm_cells now data))"
proof (intro conjI)
  show "row_first (handle_trigger now data me) s (csv_line (trigger_cells now data))"
    using assms
    by (cases "transport_ok s")
       (simp_all add: row_first_def effects_of_def trigger_run_cells trigger_run_mute_cells
          one_line)
  show "row_first (on_participant_ack now data) s (csv_line (ack_cells now data))"
    using assms
    by (simp add: row_first_def effects_of_def ack_run_cells one_line)
  show "row_first (on_participant_input now data me) s (csv_line (input_cells now data))"
    using assms
    by (cases "transport_ok s")
       (simp_all add: row_first_def effects_of_def input_run_cells input_run_mute_cells
          one_line)
  show "row_first (on_participant_confirm now data) s (csv_line (confirm_cells now data))"
    using assms
    by (simp add: row_first_def effects_of_def confirm_run_cells one_line)
qed

theorem audit_row_before_forward_witness:
  "storage_ok s_used
   \<and> appended (effects_of (handle_trigger t0 trigger0 ''op'') s_used) = [trigger0_line @ [newline]]
   \<and> newline \<notin> set trigger0_line \<and> lines_of (trigger0_line @ [newline]) = [trigger0_line]
   \<and> appended (effects_of (on_participant_ack t0 ack0) s_used) = [ack0_line @ [newline]]
   \<and> newline \<notin> set ack0_line \<and> lines_of (ack0_line @ [newline]) = [ack0_line]
   \<and> appended (effects_of (on_participant_input t0 input0 ''p1'') s_used) = [input0_line @ [newline]]
   \<and> newline \<notin> set input0_line \<and> lines_of (input0_line @ [newline]) = [input0_line]
   \<and> appended (effects_of (on_participant_confirm t0 confirm0) s_used) = [confirm0_line @ [newline]]
   \<and> newline \<notin> set confirm0_line \<and> lines_of (confirm0_line @ [newline]) = [confirm0_line]
   \<and> log_file (snd (on_participant_confirm t0 confirm0 s_used)) =
       Some (header @ ''2024-03-09T14:00:00Z,ack,a1,,,,'' @ [newline] @ confirm0_line @ [newline])"
proof -
  have ok: "storage_ok s_used" by (simp add: s_used_def s0_def)
  have f: "log_file s_used = Some (header @ ''2024-03-09T14:00:00Z,ack,a1,,,,'' @ [newline])"
    by (simp add: s_used_def)
  have nl: "newline \<notin> set trigger0_line" "newline \<notin> set ack0_line"
    "newline \<notin> set input0_line" "newline \<notin> set confirm0_line"
    by (simp_all add: trigger0_line_def ack0_line_def input0_line_def confirm0_line_def newline_def)
  have a: "row_first (handle_trigger t0 trigger0 ''op'') s_used trigger0_line"
    using audit_row_before_forward [OF ok, of t0 trigger0 "''op''"]
    by (simp add: trigger0_cells)
  have b: "row_first (on_participant_ack t0 ack0) s_used ack0_line"
    using audit_row_before_forward [OF ok, of t0 ack0 "''op''"]
    by (simp add: ack0_cells)
  have c: "row_first (on_participant_input t0 input0 ''p1'') s_used input0_line"
    using audit_row_before_forward [OF ok, of t0 input0 "''p1''"]
    by (simp add: input0_cells)
  have d: "row_first (on_participant_confirm t0 confirm0) s_used confirm0_line"
    using audit_row_before_forward [OF ok, of t0 confirm0 "''p1''"]
    by (simp add: confirm0_cells)
  show ?thesis
    using ok nl a b c d by (simp add: row_first_def Let_def f)
qed

section \<open>Columns of a row\<close>

lemma column_of_logged:
  "column_of_log name (did es (logged row s)) =
     Some (map (field name)
             (lines_of ((case log_file s of None \<Rightarrow> header | Some c \<Rightarrow> c) @ row @ [newline])))"
  by (simp add: column_of_log_def)

lemma field_type_id:
  assumes "cell_ok c1" "cell_ok c2" "cell_ok c3"
  shows "field ''action_type'' (csv_line [c1, c2, c3, c4, c5, c6, c7]) = Some c2"
    and "field ''action_id'' (csv_line [c1, c2, c3, c4, c5, c6, c7]) = Some c3"
proof -
  have cells: "csv_cells (csv_line [c1, c2, c3, c4, c5, c6, c7])
               = c1 # c2 # c3 # csv_cells (csv_line [c4, c5, c6, c7])"
    using assms by (rule cells_three)
  have q: "unquote c2 = c2" "unquote c3 = c3"
    using assms by (simp_all add: cell_ok_def unquote_plain)
  show "field ''action_type'' (csv_line [c1, c2, c3, c4, c5, c6, c7]) = Some c2"
    unfolding field_def column_def using field_second [OF cells] q by simp
  show "field ''action_id'' (csv_line [c1, c2, c3, c4, c5, c6, c7]) = Some c3"
    unfolding field_def column_def using field_third [OF cells] q by simp
qed

lemma field_description:
  assumes "cell_ok c1" "cell_ok c2" "cell_ok c3" "CHR 0x22 \<notin> set t4"
  shows "field ''description'' (csv_line [c1, c2, c3, CHR 0x22 # t4 @ [CHR 0x22], c5, c6, c7])
         = Some t4"
proof -
  have cells: "csv_cells (csv_line [c1, c2, c3, CHR 0x22 # t4 @ [CHR 0x22], c5, c6, c7])
               = c1 # c2 # c3 # (CHR 0x22 # t4 @ [CHR 0x22]) # csv_cells (csv_line [c5, c6, c7])"
    using assms by (rule cells_four)
  show ?thesis
    unfolding field_def column_def using field_fourth [OF cells] unquote_quoted [of t4] by simp
qed

lemma field_response:
  assumes "cell_ok c1" "cell_ok c2" "cell_ok c3" "CHR 0x22 \<notin> set t4" "CHR 0x22 \<notin> set t5"
    "cell_ok c6"
  shows "field ''participant_response''
           (csv_line [c1, c2, c3, CHR 0x22 # t4 @ [CHR 0x22], CHR 0x22 # t5 @ [CHR 0x22], c6, c7])
         = Some c6"
proof -
  have cells: "csv_cells (csv_line [c1, c2, c3, CHR 0x22 # t4 @ [CHR 0x22],
                                    CHR 0x22 # t5 @ [CHR 0x22], c6, c7])
               = c1 # c2 # c3 # (CHR 0x22 # t4 @ [CHR 0x22]) # (CHR 0x22 # t5 @ [CHR 0x22]) # c6
                 # csv_cells c7"
    using assms by (rule cells_six)
  have q: "unquote c6 = c6" using assms by (simp add: cell_ok_def unquote_plain)
  show ?thesis
    unfolding field_def column_def using field_sixth [OF cells] q by simp
qed

lemma word_cells: "cell_ok ''participant_confirm''" "CHR 0x22 \<notin> set ''participant confirmed hearing''"
  by (simp_all add: cell_ok_def)

section \<open>TriggerAction\<close>

text \<open>
  C6.  The claim gives every well-formed TriggerAction one audit record whose actionId is
  the event's id.  The id is written between two commas as it comes, and the note between
  two double quotes: an id \<^verbatim>\<open>a,b\<close> is read back from the log as \<^verbatim>\<open>a\<close>, an id holding
  a double quote is not read back as itself, and a note holding a newline leaves two
  lines in the log for one append.
\<close>

theorem trigger_id_misread_counterexample:
  "map_of trigger_comma ''id'' = Some (PStr ''a,b'')
   \<and> column_of_log ''action_id'' (snd (handle_trigger t0 trigger_comma ''op'' s0))
       = Some [Some ''action_id'', Some ''a'']
   \<and> map_of trigger_quote ''id'' = Some (PStr (''a'' @ [CHR 0x22] @ ''b''))
   \<and> column_of_log ''action_id'' (snd (handle_trigger t0 trigger_quote ''op'' s0))
       \<noteq> Some [Some ''action_id'', Some (''a'' @ [CHR 0x22] @ ''b'')]
   \<and> length (appended (effects_of (handle_trigger t0 trigger_newline ''op'') s0)) = 1
   \<and> column_of_log ''action_id'' (snd (handle_trigger t0 trigger_newline ''op'' s0))
       = Some [Some ''action_id'', Some ''a1'', None]"
proof -
  have ok: "storage_ok s0" "transport_ok s0" by (simp_all add: s0_def)
  have none: "log_file s0 = None" by (simp add: s0_def)
  show ?thesis
    using none
    by (simp add: effects_of_def trigger_run [OF ok] column_of_logged isoformat_t0
          trigger_comma_def trigger_quote_def trigger_newline_def
          dict_get_def dict_get_default_def str_int_def dec.simps digits_def quoted_def
          lines_of_def header_def header_line_def newline_def
          field_def column_def csv_cells_def header_cols_def unquote_def)
qed

text \<open>
  C6, as amended.  For every TriggerAction event whose type \<open>k\<close> and id \<open>i\<close> are strings
  without comma and double quote and whose row holds no newline, sent by a connected
  client on a working storage and transport: the handler returns normally; it makes one
  append, which is exactly one line of the log, and in that line the action_type column
  reads \<open>k\<close> and the action_id column reads \<open>i\<close>; it emits the event data unchanged as
  \<^verbatim>\<open>action\<close> to all connected clients (the sender among them), and then the reply
  \<^verbatim>\<open>ack\<close> with status \<^verbatim>\<open>sent\<close> and the id to the sender.
\<close>

theorem trigger_record_broadcast_ack:
  assumes "storage_ok s" and "transport_ok s"
    and "map_of data ''type'' = Some (PStr k)" and "map_of data ''id'' = Some (PStr i)"
    and "cell_ok k" and "cell_ok i"
    and "newline \<notin> set (csv_line (trigger_cells now data))"
    and "me \<in> connected s"
  shows "fst (handle_trigger now data me s) = None
       \<and> appended (effects_of (handle_trigger now data me) s)
           = [csv_line (trigger_cells now data) @ [newline]]
       \<and> lines_of (csv_line (trigger_cells now data) @ [newline])
           = [csv_line (trigger_cells now data)]
       \<and> field ''action_type'' (csv_line (trigger_cells now data)) = Some k
       \<and> field ''action_id'' (csv_line (trigger_cells now data)) = Some i
       \<and> log_file (snd (handle_trigger now data me s))
           = Some ((case log_file s of None \<Rightarrow> header | Some c \<Rightarrow> c)
                   @ csv_line (trigger_cells now data) @ [newline])
       \<and> emitted (effects_of (handle_trigger now data me) s) =
           [(''action'', data, Broadcast),
            (''ack'', [(''status'', PStr ''sent''), (''id'', PStr i)], ToSid me)]
       \<and> audience (snd (handle_trigger now data me s)) Broadcast = connected s
       \<and> me \<in> audience (snd (handle_trigger now data me s)) Broadcast
       \<and> audience (snd (handle_trigger now data me s)) (ToSid me) = {me}"
proof -
  have run: "handle_trigger now data me s =
     (None, did [Emitted ''action'' data Broadcast,
                 Emitted ''ack'' [(''status'', PStr ''sent''), (''id'', PStr i)] (ToSid me)]
              (logged (csv_line (trigger_cells now data)) s))"
    using assms(1,2,4) by (simp add: trigger_run_cells dict_get_some)
  have cells: "trigger_cells now data =
     [isoformat now @ ''Z'', k, i,
      CHR 0x22 # py_str (dict_get_default data ''payload'' (PStr [])) @ [CHR 0x22],
      CHR 0x22 # py_str (dict_get_default data ''note'' (PStr [])) @ [CHR 0x22],
      [], [CHR 0x22, CHR 0x22]]"
    using assms(3,4) by (simp add: trigger_cells_def dict_get_some)
  have f: "field ''action_type'' (csv_line (trigger_cells now data)) = Some k"
    "field ''action_id'' (csv_line (trigger_cells now data)) = Some i"
    unfolding cells using stamp_cell assms(5,6) by (rule field_type_id)+
  show ?thesis
    using assms(8) f one_line [OF assms(7)]
    by (simp add: run effects_of_def)
qed

theorem trigger_record_broadcast_ack_witness:
  "storage_ok s0 \<and> transport_ok s0
   \<and> map_of trigger0 ''type'' = Some (PStr ''audio'')
   \<and> map_of trigger0 ''id'' = Some (PStr ''overview_01'')
   \<and> cell_ok ''audio'' \<and> cell_ok ''overview_01''
   \<and> newline \<notin> set trigger0_line
   \<and> ''op'' \<in> connected s0
   \<and> fst (handle_trigger t0 trigger0 ''op'' s0) = None
   \<and> appended (effects_of (handle_trigger t0 trigger0 ''op'') s0) = [trigger0_line @ [newline]]
   \<and> lines_of (trigger0_line @ [newline]) = [trigger0_line]
   \<and> field ''action_type'' trigger0_line = Some ''audio''
   \<and> field ''action_id'' trigger0_line = Some ''overview_01''
   \<and> log_file (snd (handle_trigger t0 trigger0 ''op'' s0)) = Some (header @ trigger0_line @ [newline])
   \<and> emitted (effects_of (handle_trigger t0 trigger0 ''op'') s0) =
        [(''action'', trigger0, Broadcast),
         (''ack'', [(''status'', PStr ''sent''), (''id'', PStr ''overview_01'')], ToSid ''op'')]
   \<and> audience (snd (handle_trigger t0 trigger0 ''op'' s0)) Broadcast = {''op'', ''p1''}"
proof -
  have ok: "storage_ok s0" "transport_ok s0" by (simp_all add: s0_def)
  have ty: "map_of trigger0 ''type'' = Some (PStr ''audio'')" by (simp add: trigger0_def)
  have ti: "map_of trigger0 ''id'' = Some (PStr ''overview_01'')" by (simp add: trigger0_def)
  have c: "cell_ok ''audio''" "cell_ok ''overview_01''" by (simp_all add: cell_ok_def)
  have nl: "newline \<notin> set (csv_line (trigger_cells t0 trigger0))"
    by (simp add: trigger0_cells trigger0_line_def newline_def)
  have me: "''op'' \<in> connected s0" by (simp add: s0_def)
  have conn: "connected s0 = {''op'', ''p1''}" "log_file s0 = None" by (simp_all add: s0_def)
  show ?thesis
    using ok ty ti c nl me trigger_record_broadcast_ack [OF ok ty ti c nl me]
    by (simp add: trigger0_cells conn)
qed

section \<open>ParticipantConfirm\<close>

lemma confirm_fields:
  assumes "cell_ok (py_str (py_or (dict_get data ''id'') (PStr ''confirm'')))"
  shows "field ''action_type'' (csv_line (confirm_cells now data)) = Some ''participant_confirm''"
    and "field ''action_id'' (csv_line (confirm_cells now data))
         = Some (py_str (py_or (dict_get data ''id'') (PStr ''confirm'')))"
    and "field ''description'' (csv_line (confirm_cells now data))
         = Some ''participant confirmed hearing''"
    and "cell_ok (py_str (py_or (dict_get data ''response'') (PStr []))) \<Longrightarrow>
         field ''participant_response'' (csv_line (confirm_cells now data))
         = Some (py_str (py_or (dict_get data ''response'') (PStr [])))"
proof -
  note w = stamp_cell [of now] word_cells(1) assms
  show "field ''action_type'' (csv_line (confirm_cells now data)) = Some ''participant_confirm''"
    unfolding confirm_cells_def using w by (rule field_type_id)
  show "field ''action_id'' (csv_line (confirm_cells now data))
         = Some (py_str (py_or (dict_get data ''id'') (PStr ''confirm'')))"
    unfolding confirm_cells_def using w by (rule field_type_id)
  show "field ''description'' (csv_line (confirm_cells now data))
         = Some ''participant confirmed hearing''"
    unfolding confirm_cells_def using w word_cells(2) by (rule field_description)
  assume r: "cell_ok (py_str (py_or (dict_get data ''response'') (PStr [])))"
  have e: "CHR 0x22 \<notin> set []" by simp
  have "field ''participant_response''
          (csv_line [isoformat now @ ''Z'', ''participant_confirm'',
                     py_str (py_or (dict_get data ''id'') (PStr ''confirm'')),
                     CHR 0x22 # ''participant confirmed hearing'' @ [CHR 0x22],
                     CHR 0x22 # [] @ [CHR 0x22],
                     py_str (py_or (dict_get data ''response'') (PStr [])),
                     CHR 0x22 # py_str (dict_get_default data ''note'' (PStr [])) @ [CHR 0x22]])
        = Some (py_str (py_or (dict_get data ''response'') (PStr [])))"
    using w word_cells(2) e r by (rule field_response)
  then show "field ''participant_response'' (csv_line (confirm_cells now data))
         = Some (py_str (py_or (dict_get data ''response'') (PStr [])))"
    by (simp add: confirm_cells_def)
qed

text \<open>
  C7.  The claim is stated for every id and response.  An id that is the empty string is
  replaced by \<^verbatim>\<open>confirm\<close> (\<^verbatim>\<open>data.get('id') or 'confirm'\<close>), in the row and in the
  forwarded message.  Id and response are written between commas as they come: an id
  \<^verbatim>\<open>x,y\<close> is read back as \<^verbatim>\<open>x\<close>, a response \<^verbatim>\<open>yes,no\<close> as \<^verbatim>\<open>yes\<close>, an id holding a
  double quote is not read back as itself, and a response holding a newline leaves two
  lines in the log for one append.
\<close>

theorem confirm_misread_counterexample:
  "map_of confirm_blank ''id'' = Some (PStr [])
   \<and> column_of_log ''action_id'' (snd (on_participant_confirm t0 confirm_blank s0))
       = Some [Some ''action_id'', Some ''confirm'']
   \<and> emitted (effects_of (on_participant_confirm t0 confirm_blank) s0) =
        [(''participant_input'',
          [(''id'', PStr ''confirm''), (''type'', PStr ''confirm''),
           (''value'', PStr ''confirmed''), (''serverTs'', PStr ''2024-03-09T14:05:07.120034Z'')],
          ToRoom ''wizard'')]
   \<and> map_of confirm_comma ''id'' = Some (PStr ''x,y'')
   \<and> column_of_log ''action_id'' (snd (on_participant_confirm t0 confirm_comma s0))
       = Some [Some ''action_id'', Some ''x'']
   \<and> map_of confirm_response_comma ''response'' = Some (PStr ''yes,no'')
   \<and> column_of_log ''participant_response''
         (snd (on_participant_confirm t0 confirm_response_comma s0))
       = Some [Some ''participant_response'', Some ''yes'']
   \<and> map_of confirm_quote ''id'' = Some (PStr (''x'' @ [CHR 0x22] @ ''y''))
   \<and> column_of_log ''action_id'' (snd (on_participant_confirm t0 confirm_quote s0))
       \<noteq> Some [Some ''action_id'', Some (''x'' @ [CHR 0x22] @ ''y'')]
   \<and> map_of confirm_newline ''response'' = Some (PStr (''yes'' @ [newline] @ ''no''))
   \<and> length (appended (effects_of (on_participant_confirm t0 confirm_newline) s0)) = 1
   \<and> column_of_log ''participant_response'' (snd (on_participant_confirm t0 confirm_newline s0))
       = Some [Some ''participant_response'', Some ''yes'', None]"
proof -
  have ok: "storage_ok s0" "transport_ok s0" by (simp_all add: s0_def)
  have none: "log_file s0 = None" by (simp add: s0_def)
  show ?thesis
    using none ok
    by (simp add: effects_of_def confirm_run [OF ok(1)] column_of_logged isoformat_t0
          confirm_blank_def confirm_comma_def confirm_response_comma_def confirm_quote_def
          confirm_newline_def
          dict_get_def dict_get_default_def py_or_def quoted_def
          lines_of_def header_def header_line_def newline_def
          field_def column_def csv_cells_def header_cols_def unquote_def)
qed

text \<open>
  C7, as amended.  For every ParticipantConfirm event with a non-empty id \<open>i\<close> and a
  response \<open>r\<close>, both without comma and double quote, and a row without newline, on a
  working storage and transport: one append is made, which is exactly one line of the
  log, and in that line action_type reads \<^verbatim>\<open>participant_confirm\<close>, action_id reads \<open>i\<close>
  and participant_response reads \<open>r\<close>; the only message emitted is \<^verbatim>\<open>participant_input\<close>
  with id \<open>i\<close>, type \<^verbatim>\<open>confirm\<close>, value \<open>r\<close> and the server timestamp, addressed to the
  wizard room; no reply goes to the sender.
\<close>

theorem confirm_record_forwarded:
  assumes "storage_ok s" and "transport_ok s"
    and "map_of data ''id'' = Some (PStr i)" and "i \<noteq> []"
    and "map_of data ''response'' = Some (PStr r)"
    and "cell_ok i" and "cell_ok r"
    and "newline \<notin> set (csv_line (confirm_cells now data))"
  shows "fst (on_participant_confirm now data s) = None
       \<and> appended (effects_of (on_participant_confirm now data) s)
           = [csv_line (confirm_cells now data) @ [newline]]
       \<and> lines_of (csv_line (confirm_cells now data) @ [newline])
           = [csv_line (confirm_cells now data)]
       \<and> field ''action_type'' (csv_line (confirm_cells now data)) = Some ''participant_confirm''
       \<and> field ''action_id'' (csv_line (confirm_cells now data)) = Some i
       \<and> field ''participant_response'' (csv_line (confirm_cells now data)) = Some r
       \<and> log_file (snd (on_participant_confirm now data s))
           = Some ((case log_file s of None \<Rightarrow> header | Some c \<Rightarrow> c)
                   @ csv_line (confirm_cells now data) @ [newline])
       \<and> emitted (effects_of (on_participant_confirm now data) s) =
           [(''participant_input'',
             [(''id'', PStr i), (''type'', PStr ''confirm''), (''value'', PStr r),
              (''serverTs'', PStr (isoformat now @ ''Z''))],
             ToRoom ''wizard'')]
       \<and> audience (snd (on_participant_confirm now data s)) (ToRoom ''wizard'') = rooms s ''wizard''"
proof -
  have pid: "py_or (dict_get data ''id'') (PStr ''confirm'') = PStr i"
    using assms(3,4) by (simp add: dict_get_some py_or_def)
  have resp: "py_or (dict_get data ''response'') (PStr []) = PStr r"
    using assms(5) by (simp add: dict_get_some py_or_str_empty)
  have ci: "cell_ok (py_str (py_or (dict_get data ''id'') (PStr ''confirm'')))"
    using assms(6) by (simp add: pid)
  have cr: "cell_ok (py_str (py_or (dict_get data ''response'') (PStr [])))"
    using assms(7) by (simp add: resp)
  note f = confirm_fields(1,2) [OF ci, of now] confirm_fields(4) [OF ci cr, of now]
  show ?thesis
    using assms(1,2) f one_line [OF assms(8)]
    by (simp add: confirm_run_cells effects_of_def pid resp)
qed

theorem confirm_record_forwarded_witness:
  "storage_ok s0 \<and> transport_ok s0
   \<and> map_of confirm0 ''id'' = Some (PStr ''confirm_hearing'') \<and> ''confirm_hearing'' \<noteq> []
   \<and> map_of confirm0 ''response'' = Some (PStr ''confirmed'')
   \<and> cell_ok ''confirm_hearing'' \<and> cell_ok ''confirmed''
   \<and> newline \<notin> set confirm0_line
   \<and> fst (on_participant_confirm t0 confirm0 s0) = None
   \<and> appended (effects_of (on_participant_confirm t0 confirm0) s0) = [confirm0_line @ [newline]]
   \<and> lines_of (confirm0_line @ [newline]) = [confirm0_line]
   \<and> field ''action_type'' confirm0_line = Some ''participant_confirm''
   \<and> field ''action_id'' confirm0_line = Some ''confirm_hearing''
   \<and> field ''participant_response'' confirm0_line = Some ''confirmed''
   \<and> log_file (snd (on_participant_confirm t0 confirm0 s0))
       = Some (header @ confirm0_line @ [newline])
   \<and> emitted (effects_of (on_participant_confirm t0 confirm0) s0) =
        [(''participant_input'',
          [(''id'', PStr ''confirm_hearing''), (''type'', PStr ''confirm''),
           (''value'', PStr ''confirmed''), (''serverTs'', PStr ''2024-03-09T14:05:07.120034Z'')],
          ToRoom ''wizard'')]
   \<and> audience (snd (on_participant_confirm t0 confirm0 s0)) (ToRoom ''wizard'') = {''op''}"
proof -
  have ok: "storage_ok s0" "transport_ok s0" by (simp_all add: s0_def)
  have ci: "map_of confirm0 ''id'' = Some (PStr ''confirm_hearing'')" by (simp add: confirm0_def)
  have ne: "''confirm_hearing'' \<noteq> []" by simp
  have cr: "map_of confirm0 ''response'' = Some (PStr ''confirmed'')" by (simp add: confirm0_def)
  have c: "cell_ok ''confirm_hearing''" "cell_ok ''confirmed''" by (simp_all add: cell_ok_def)
  have nl: "newline \<notin> set (csv_line (confirm_cells t0 confirm0))"
    by (simp add: confirm0_cells confirm0_line_def newline_def)
  have w: "rooms s0 ''wizard'' = {''op''}" "log_file s0 = None" by (simp_all add: s0_def)
  show ?thesis
    using ok ci cr c nl confirm_record_forwarded [OF ok ci ne cr c nl]
    by (simp add: confirm0_cells isoformat_t0 w)
qed

text \<open>
  C10.  The claim makes the description of the record independent of the event.  The id
  stands before the description in the row, unquoted: for the id \<^verbatim>\<open>x,y\<close> the
  description column of the logged line reads \<^verbatim>\<open>y\<close>, for an id holding a double quote
  the line has no description column, and a response holding a newline leaves a second
  line without one.
\<close>

theorem confirm_description_misread_counterexample:
  "column_of_log ''description'' (snd (on_participant_confirm t0 confirm_comma s0))
     = Some [Some ''description'', Some ''y'']
   \<and> column_of_log ''description'' (snd (on_participant_confirm t0 confirm_quote s0))
     = Some [Some ''description'', None]
   \<and> length (appended (effects_of (on_participant_confirm t0 confirm_newline) s0)) = 1
   \<and> column_of_log ''description'' (snd (on_participant_confirm t0 confirm_newline s0))
     = Some [Some ''description'', Some ''participant confirmed hearing'', None]"
proof -
  have ok: "storage_ok s0" "transport_ok s0" by (simp_all add: s0_def)
  have none: "log_file s0 = None" by (simp add: s0_def)
  show ?thesis
    using none ok
    by (simp add: effects_of_def confirm_run [OF ok(1)] column_of_logged isoformat_t0
          confirm_comma_def confirm_quote_def confirm_newline_def
          dict_get_def dict_get_default_def py_or_def quoted_def
          lines_of_def header_def header_line_def newline_def
          field_def column_def csv_cells_def header_cols_def unquote_def)
qed

text \<open>
  C10, as amended.  For every ParticipantConfirm event whose id, as written in the row,
  holds no comma and no double quote and whose row holds no newline, on a storage that
  accepts the append: one append is made, which is exactly one line of the log, and the
  description column of that line reads \<^verbatim>\<open>participant confirmed hearing\<close>, whatever
  else the event contains.
\<close>

theorem confirm_description_fixed:
  assumes "storage_ok s"
    and "cell_ok (py_str (py_or (dict_get data ''id'') (PStr ''confirm'')))"
    and "newline \<notin> set (csv_line (confirm_cells now data))"
  shows "appended (effects_of (on_participant_confirm now data) s)
           = [csv_line (confirm_cells now data) @ [newline]]
       \<and> lines_of (csv_line (confirm_cells now data) @ [newline])
           = [csv_line (confirm_cells now data)]
       \<and> field ''description'' (csv_line (confirm_cells now data))
           = Some ''participant confirmed hearing''"
  using assms(1) confirm_fields(3) [OF assms(2), of now] one_line [OF assms(3)]
  by (simp add: confirm_run_cells effects_of_def)

theorem confirm_description_fixed_witness:
  "storage_ok s_used
   \<and> cell_ok (py_str (py_or (dict_get confirm0 ''id'') (PStr ''confirm'')))
   \<and> newline \<notin> set confirm0_line
   \<and> appended (effects_of (on_participant_confirm t0 confirm0) s_used) = [confirm0_line @ [newline]]
   \<and> lines_of (confirm0_line @ [newline]) = [confirm0_line]
   \<and> field ''description'' confirm0_line = Some ''participant confirmed hearing''"
proof -
  have ok: "storage_ok s_used" by (simp add: s_used_def s0_def)
  have c: "cell_ok (py_str (py_or (dict_get confirm0 ''id'') (PStr ''confirm'')))"
    by (simp add: confirm0_def dict_get_def py_or_def cell_ok_def)
  have nl: "newline \<notin> set (csv_line (confirm_cells t0 confirm0))"
    by (simp add: confirm0_cells confirm0_line_def newline_def)
  show ?thesis
    using ok c nl confirm_description_fixed [OF ok c nl]
    by (simp add: confirm0_cells)
qed

end
